theory Spec2Isabelle
  imports Complex_Main "HOL-Library.Log_Nat"
begin

section \<open>The shopping cart of the Transgourmet server\<close>

text \<open>
  The class \<open>CartApi\<close> keeps one mutable field, \<open>cartStorage\<close>, a JavaScript \<open>Map\<close>
  from user names to carts. Every method is embedded as a function that takes the
  storage and returns its result together with the storage it leaves behind, so that
  "the method does not write" is a statement about the returned storage.

  Conventions of the embedding:
  \<^item> a quantity is a JavaScript number with an integer value, as the data model has it
    and as the input schemas of the tool layer (\<open>z.number().int().positive()\<close>) let
    through; it is added as the source adds it, in IEEE double arithmetic, which rounds
    above \<open>2^53\<close> and overflows to \<open>Infinity\<close>. Zero and negative quantities are not
    excluded, since the class does not validate them;
  \<^item> what a catalog response carries is not validated by the source, so it is a
    JavaScript value of any shape, and so are the description and the price of a
    display line, which are copied from it;
  \<^item> carts are values. The source mutates the stored cart object in place and stores it
    again; the embedding computes the new cart and stores it. Starting from the empty
    \<open>Map\<close> that the server creates, the methods never store one cart object under two
    keys, and the lines they are given are built freshly from the request, so no two
    names reach the same object;
  \<^item> console output is not part of the state;
  \<^item> the asynchronous \<open>getCart\<close> is run without other cart operations interleaved at
    its suspension points, and every catalog lookup settles (resolves or rejects).
\<close>

subsection \<open>JavaScript numbers with integer values\<close>

text \<open>
  The doubles with an integer value, given by that value, and the three values that
  their sums can also take. The two zeros are one value here: they are equal under
  \<open>===\<close> and print alike.
\<close>

datatype number = Finite int | PosInfinity | NegInfinity | NaN

text \<open>
  The double nearest to an integer, ties to the even significand (the rounding of IEEE
  754 that \<open>+\<close> applies to the exact sum). Up to \<open>2^53\<close> in magnitude every integer is a
  double. Above, an integer of \<open>b\<close> bits keeps its leading 53 bits: the doubles around it
  are the multiples of \<open>2^(b - 53)\<close>. A result of magnitude \<open>2^1024\<close> or more is an
  infinity.
\<close>

definition roundDouble :: "int \<Rightarrow> number" where
  "roundDouble n =
     (if \<bar>n\<bar> \<le> 2 ^ 53 then Finite n
      else (let ulp = 2 ^ nat (bitlen \<bar>n\<bar> - 53);
                q = \<bar>n\<bar> div ulp;
                r = \<bar>n\<bar> mod ulp;
                m = (if 2 * r < ulp \<or> (2 * r = ulp \<and> even q) then q else q + 1)
            in if 2 ^ 1024 \<le> m * ulp
               then (if n < 0 then NegInfinity else PosInfinity)
               else Finite (sgn n * (m * ulp))))"

text \<open>The operator \<open>+\<close> on these numbers.\<close>

fun jsAdd :: "number \<Rightarrow> number \<Rightarrow> number" where
  "jsAdd (Finite a) (Finite b) = roundDouble (a + b)"
| "jsAdd NaN y = NaN"
| "jsAdd x NaN = NaN"
| "jsAdd PosInfinity NegInfinity = NaN"
| "jsAdd NegInfinity PosInfinity = NaN"
| "jsAdd PosInfinity y = PosInfinity"
| "jsAdd x PosInfinity = PosInfinity"
| "jsAdd NegInfinity y = NegInfinity"
| "jsAdd x NegInfinity = NegInfinity"

subsection \<open>JavaScript values out of JSON\<close>

text \<open>
  What \<open>JSON.parse\<close> can produce, and \<open>undefined\<close>, which reading a missing property
  gives. A number is given by its value (a literal too large for a double parses to an
  infinity); an object by the value of each property name, \<open>undefined\<close> for the names
  it lacks.
\<close>

datatype JsValue =
    JsUndefined
  | JsNull
  | JsBoolean bool
  | JsNumber real
  | JsPosInfinity
  | JsNegInfinity
  | JsString string
  | JsArray "JsValue list"
  | JsObject "string \<Rightarrow> JsValue"

text \<open>The values that \<open>!\<close> and \<open>||\<close> treat as true.\<close>

fun truthy :: "JsValue \<Rightarrow> bool" where
  "truthy JsUndefined = False"
| "truthy JsNull = False"
| "truthy (JsBoolean b) = b"
| "truthy (JsNumber x) = (x \<noteq> 0)"
| "truthy (JsString s) = (s \<noteq> '''')"
| "truthy v = True"

text \<open>
  Reading one of the properties \<open>description\<close>, \<open>articleNumber\<close>, \<open>normalPrice\<close> of a
  truthy value: an object gives what it holds; an array, a string, a number and
  \<open>true\<close> have no property of these names.
\<close>

fun getProperty :: "JsValue \<Rightarrow> string \<Rightarrow> JsValue" where
  "getProperty (JsObject properties) name = properties name"
| "getProperty v name = JsUndefined"

subsection \<open>The catalog lookup (\<open>transgourmet-api.ts\<close>)\<close>

text \<open>
  The object that the lookup returns. Its fields are declared \<open>string\<close>, \<open>string\<close> and
  \<open>number\<close>, but they are read from the response body through an unchecked cast, so they
  hold whatever the body holds under these names.
\<close>

record ArticleDetails =
  description :: JsValue
  articleNumber :: JsValue
  normalPrice :: JsValue

text \<open>
  What is thrown on the way of a lookup: the rejection of \<open>fetch\<close> (a transport failure),
  the rejection of \<open>response.json()\<close> (the body is not JSON), and the two errors that
  \<open>fetchTransgourmetArticleDetails\<close> creates itself; the message
  \<open>API request failed: ${apiUrl} - ${response.status} ${response.statusText}\<close> is kept as
  its three parts.
\<close>

datatype Error =
    FetchFailed string
  | InvalidJson string
  | ApiRequestFailed string nat string
  | ArticleDataNotFound

text \<open>
  The response of \<open>fetch\<close>, as far as the lookup reads it. \<open>json\<close> is the outcome of
  \<open>await response.json()\<close>: a rejection, or the parsed body, of any shape.
\<close>

record Response =
  ok :: bool
  status :: nat
  statusText :: string
  json :: "Error + JsValue"

text \<open>
  The network is an explicit world state \<open>'w\<close>, which each request reads and advances:
  two requests for one URL may be answered differently.
\<close>

type_synonym 'w fetch = "string \<Rightarrow> 'w \<Rightarrow> (Error + Response) \<times> 'w"

text \<open>A lookup as the cart sees it: it rejects with an error or resolves to the details.\<close>

type_synonym 'w fetchArticleDetails = "string \<Rightarrow> 'w \<Rightarrow> (Error + ArticleDetails) \<times> 'w"

text \<open>
  The \<open>catch\<close> block of the lookup logs the error and throws it again, so every error
  passes to the caller unchanged. \<open>if (!articleData)\<close> rejects a falsy body only; any
  other body resolves, with the three properties as it has them.
\<close>

definition fetchTransgourmetArticleDetails :: "'w fetch \<Rightarrow> 'w fetchArticleDetails" where
  "fetchTransgourmetArticleDetails fetch articleNo w =
     (let apiUrl =
            ''https://webshop.transgourmet.ch/api/webshop/hub/bgh/articledetails/'' @ articleNo
      in case fetch apiUrl w of
           (Inl error, w') \<Rightarrow> (Inl error, w')
         | (Inr response, w') \<Rightarrow>
             if \<not> ok response
             then (Inl (ApiRequestFailed apiUrl (status response) (statusText response)), w')
             else (case json response of
                     Inl error \<Rightarrow> (Inl error, w')
                   | Inr data \<Rightarrow>
                       if \<not> truthy data then (Inl ArticleDataNotFound, w')
                       else (Inr \<lparr>ArticleDetails.description = getProperty data ''description'',
                                   ArticleDetails.articleNumber = getProperty data ''articleNumber'',
                                   normalPrice = getProperty data ''normalPrice''\<rparr>, w')))"

subsection \<open>Type definitions\<close>

record CartPosition =
  articleNumber :: string
  quantity :: number

record Cart =
  positions :: "CartPosition list"

text \<open>
  \<open>CartPositionDisplay\<close> repeats the two fields of \<open>CartPosition\<close> and adds three; it is
  the record extension, so \<open>articleNumber\<close> and \<open>quantity\<close> read both kinds of line.
  \<open>description\<close> and \<open>price\<close> are declared \<open>string\<close> and \<open>number\<close>; they receive what the
  lookup resolved to.
\<close>

record CartPositionDisplay = CartPosition +
  description :: JsValue
  price :: JsValue
  imageUrl :: string

record CartDisplay =
  positions :: "CartPositionDisplay list"
  totalPositions :: number

type_synonym CartStorage = "string \<rightharpoonup> Cart"

subsection \<open>Array helpers\<close>

text \<open>\<open>Array.prototype.findIndex\<close>: the first index whose element satisfies the
  predicate, \<open>-1\<close> when there is none.\<close>

fun findIndex :: "('a \<Rightarrow> bool) \<Rightarrow> 'a list \<Rightarrow> int" where
  "findIndex P [] = - 1"
| "findIndex P (x # xs) =
    (if P x then 0
     else (let i = findIndex P xs in if i < 0 then - 1 else i + 1))"

text \<open>The image of an article, by the catalog's URL convention: the template literal
  that \<open>getCart\<close> writes in both branches.\<close>

definition articleImageUrl :: "string \<Rightarrow> string" where
  "articleImageUrl articleNo =
     ''https://webshop.transgourmet.ch/images/articles/120px/'' @ articleNo @ ''.jpg''"

subsection \<open>Reading the raw cart\<close>

text \<open>\<open>this.cartStorage.get(username) || { positions: [] }\<close>: a stored cart is an
  object, hence truthy; a missing key gives \<open>undefined\<close> and the fresh empty cart.\<close>

definition getCartInternal :: "string \<Rightarrow> CartStorage \<Rightarrow> Cart \<times> CartStorage" where
  "getCartInternal username cartStorage =
     (case cartStorage username of
        Some cart \<Rightarrow> (cart, cartStorage)
      | None \<Rightarrow> (\<lparr>Cart.positions = []\<rparr>, cartStorage))"

subsection \<open>Reading the cart with product details\<close>

text \<open>
  The \<open>for\<close> loop of \<open>getCart\<close>, with the array \<open>positions\<close> it pushes to as accumulator.
  The \<open>try\<close> block is the \<open>Inr\<close> branch (the awaited lookup resolved), the \<open>catch\<close> block the
  \<open>Inl\<close> branch. \<open>articleDetails.description || ""\<close> keeps a truthy description and
  replaces any other by the empty string; the price is taken as it is.
\<close>

fun getCart_loop ::
  "'w fetchArticleDetails \<Rightarrow> CartPosition list \<Rightarrow> CartPositionDisplay list \<Rightarrow> 'w
     \<Rightarrow> CartPositionDisplay list \<times> 'w" where
  "getCart_loop lookup [] acc w = (acc, w)"
| "getCart_loop lookup (pos # rest) acc w =
    (case lookup (articleNumber pos) w of
       (Inr articleDetails, w') \<Rightarrow>
         getCart_loop lookup rest
           (acc @ [\<lparr>articleNumber = articleNumber pos,
                    quantity = quantity pos,
                    description =
                      (if truthy (ArticleDetails.description articleDetails)
                       then ArticleDetails.description articleDetails else JsString ''''),
                    price = normalPrice articleDetails,
                    imageUrl = articleImageUrl (articleNumber pos)\<rparr>]) w'
     | (Inl error, w') \<Rightarrow>
         getCart_loop lookup rest
           (acc @ [\<lparr>articleNumber = articleNumber pos,
                    quantity = quantity pos,
                    description = JsString '''',
                    price = JsNumber 0,
                    imageUrl = articleImageUrl (articleNumber pos)\<rparr>]) w')"

text \<open>\<open>reduce((total, pos) => total + pos.quantity, 0)\<close> adds from the left, from 0.\<close>

definition getCart ::
  "'w fetchArticleDetails \<Rightarrow> string \<Rightarrow> CartStorage \<Rightarrow> 'w \<Rightarrow> CartDisplay \<times> CartStorage \<times> 'w" where
  "getCart lookup username cartStorage w =
     (let (cart, cartStorage) = getCartInternal username cartStorage;
          (positions, w') = getCart_loop lookup (Cart.positions cart) [] w;
          totalPositions = foldl (\<lambda>total pos. jsAdd total (quantity pos)) (Finite 0) positions
      in (\<lparr>CartDisplay.positions = positions, totalPositions = totalPositions\<rparr>,
          cartStorage, w'))"

subsection \<open>Mutations\<close>

definition addToCart :: "string \<Rightarrow> string \<Rightarrow> number \<Rightarrow> CartStorage \<Rightarrow> Cart \<times> CartStorage" where
  "addToCart username articleNo qty cartStorage =
     (let (cart, cartStorage) = getCartInternal username cartStorage;
          existingPositionIndex =
            findIndex (\<lambda>pos. articleNumber pos = articleNo) (Cart.positions cart);
          cart =
            (if existingPositionIndex \<ge> 0
             then cart\<lparr>Cart.positions :=
                    (Cart.positions cart)[nat existingPositionIndex :=
                       (Cart.positions cart ! nat existingPositionIndex)
                         \<lparr>quantity :=
                            jsAdd (quantity (Cart.positions cart ! nat existingPositionIndex)) qty\<rparr>]\<rparr>
             else cart\<lparr>Cart.positions :=
                    Cart.positions cart @ [\<lparr>articleNumber = articleNo, quantity = qty\<rparr>]\<rparr>)
      in (cart, cartStorage(username \<mapsto> cart)))"

text \<open>The \<open>for\<close> loop of \<open>addMultipleToCart\<close>; its body repeats that of \<open>addToCart\<close> on the
  cart object held across the iterations.\<close>

fun addMultipleToCart_loop :: "CartPosition list \<Rightarrow> Cart \<Rightarrow> Cart" where
  "addMultipleToCart_loop [] cart = cart"
| "addMultipleToCart_loop (position # rest) cart =
    (let existingPositionIndex =
           findIndex (\<lambda>pos. articleNumber pos = articleNumber position) (Cart.positions cart)
     in addMultipleToCart_loop rest
          (if existingPositionIndex \<ge> 0
           then cart\<lparr>Cart.positions :=
                  (Cart.positions cart)[nat existingPositionIndex :=
                     (Cart.positions cart ! nat existingPositionIndex)
                       \<lparr>quantity :=
                          jsAdd (quantity (Cart.positions cart ! nat existingPositionIndex))
                            (quantity position)\<rparr>]\<rparr>
           else cart\<lparr>Cart.positions :=
                  Cart.positions cart @
                    [\<lparr>articleNumber = articleNumber position,
                      quantity = quantity position\<rparr>]\<rparr>))"

definition addMultipleToCart ::
  "string \<Rightarrow> CartPosition list \<Rightarrow> CartStorage \<Rightarrow> Cart \<times> CartStorage" where
  "addMultipleToCart username newPositions cartStorage =
     (let (cart, cartStorage) = getCartInternal username cartStorage;
          cart = addMultipleToCart_loop newPositions cart
      in (cart, cartStorage(username \<mapsto> cart)))"

definition removeFromCart :: "string \<Rightarrow> string \<Rightarrow> CartStorage \<Rightarrow> Cart \<times> CartStorage" where
  "removeFromCart username articleNo cartStorage =
     (let (cart, cartStorage) = getCartInternal username cartStorage;
          cart = cart\<lparr>Cart.positions :=
                   filter (\<lambda>pos. articleNumber pos \<noteq> articleNo) (Cart.positions cart)\<rparr>
      in (cart, cartStorage(username \<mapsto> cart)))"

definition updateCartPosition ::
  "string \<Rightarrow> string \<Rightarrow> number \<Rightarrow> CartStorage \<Rightarrow> Cart \<times> CartStorage" where
  "updateCartPosition username articleNo qty cartStorage =
     (let (cart, cartStorage) = getCartInternal username cartStorage;
          existingPositionIndex =
            findIndex (\<lambda>pos. articleNumber pos = articleNo) (Cart.positions cart);
          cart =
            (if existingPositionIndex \<ge> 0
             then cart\<lparr>Cart.positions :=
                    (Cart.positions cart)[nat existingPositionIndex :=
                       (Cart.positions cart ! nat existingPositionIndex)\<lparr>quantity := qty\<rparr>]\<rparr>
             else cart\<lparr>Cart.positions :=
                    Cart.positions cart @ [\<lparr>articleNumber = articleNo, quantity = qty\<rparr>]\<rparr>)
      in (cart, cartStorage(username \<mapsto> cart)))"

text \<open>\<open>clearCart\<close> returns nothing; its embedding returns the storage alone.\<close>

definition clearCart :: "string \<Rightarrow> CartStorage \<Rightarrow> CartStorage" where
  "clearCart username cartStorage = cartStorage(username \<mapsto> \<lparr>Cart.positions = []\<rparr>)"

definition getCartItemCount :: "string \<Rightarrow> CartStorage \<Rightarrow> number \<times> CartStorage" where
  "getCartItemCount username cartStorage =
     (let (cart, cartStorage) = getCartInternal username cartStorage
      in (foldl (\<lambda>total pos. jsAdd total (quantity pos)) (Finite 0) (Cart.positions cart),
          cartStorage))"

subsection \<open>Submitting\<close>

text \<open>
  \<open>randomUUID\<close> of \<open>node:crypto\<close> is the generator of order identifiers. It is a
  parameter: a function that reads and advances the generator's state \<open>'r\<close>.
\<close>

type_synonym 'r randomUUID = "'r \<Rightarrow> string \<times> 'r"

definition submitCart ::
  "'r randomUUID \<Rightarrow> string \<Rightarrow> CartStorage \<Rightarrow> 'r \<Rightarrow> string \<times> CartStorage \<times> 'r" where
  "submitCart randomUUID username cartStorage r =
     (let (orderId, r') = randomUUID r;
          cartStorage = clearCart username cartStorage
      in (orderId, cartStorage, r'))"

section \<open>Notions used in the statements and proofs\<close>

text \<open>
  Both branches of the add and update methods, as one structural recursion: the first
  line for article \<open>a\<close> is rewritten by \<open>f\<close>, and a new line is appended when there is
  none. The methods are shown below to compute exactly this.
\<close>

fun upsert ::
  "(CartPosition \<Rightarrow> CartPosition) \<Rightarrow> string \<Rightarrow> number \<Rightarrow> CartPosition list \<Rightarrow> CartPosition list" where
  "upsert f a q [] = [\<lparr>articleNumber = a, quantity = q\<rparr>]"
| "upsert f a q (p # ps) = (if articleNumber p = a then f p # ps else p # upsert f a q ps)"

definition increase :: "number \<Rightarrow> CartPosition \<Rightarrow> CartPosition" where
  "increase q p = p\<lparr>quantity := jsAdd (quantity p) q\<rparr>"

definition replace :: "number \<Rightarrow> CartPosition \<Rightarrow> CartPosition" where
  "replace q p = p\<lparr>quantity := q\<rparr>"

definition keepsArticle :: "(CartPosition \<Rightarrow> CartPosition) \<Rightarrow> bool" where
  "keepsArticle f = (\<forall>p. articleNumber (f p) = articleNumber p)"

text \<open>The cart that a read returns.\<close>

definition cartOf :: "string \<Rightarrow> CartStorage \<Rightarrow> Cart" where
  "cartOf username cartStorage = fst (getCartInternal username cartStorage)"

text \<open>At most one line per article number, in a cart and in every stored cart.\<close>

definition uniqueArticles :: "Cart \<Rightarrow> bool" where
  "uniqueArticles cart = distinct (map articleNumber (Cart.positions cart))"

definition storageInvariant :: "CartStorage \<Rightarrow> bool" where
  "storageInvariant cartStorage =
     (\<forall>username cart. cartStorage username = Some cart \<longrightarrow> uniqueArticles cart)"

text \<open>
  Integers whose running total, from \<open>t\<close> on, stays within \<open>2^53\<close> in magnitude after
  each of them: there the additions of doubles are exact.
\<close>

fun staysExact :: "int \<Rightarrow> int list \<Rightarrow> bool" where
  "staysExact t [] = (\<bar>t\<bar> \<le> 2 ^ 53)"
| "staysExact t (n # ns) = (\<bar>t\<bar> \<le> 2 ^ 53 \<and> staysExact (t + n) ns)"

text \<open>The outcomes of the lookups that \<open>getCart\<close> issues for the lines of a cart, in the
  order of the lines, each on the world the previous one left.\<close>

fun lookupOutcomes ::
  "'w fetchArticleDetails \<Rightarrow> CartPosition list \<Rightarrow> 'w \<Rightarrow> (Error + ArticleDetails) list" where
  "lookupOutcomes lookup [] w = []"
| "lookupOutcomes lookup (pos # rest) w =
    (case lookup (articleNumber pos) w of
       (outcome, w') \<Rightarrow> outcome # lookupOutcomes lookup rest w')"

text \<open>The display line of a stored line, given the outcome of its lookup.\<close>

fun displayLine :: "CartPosition \<Rightarrow> Error + ArticleDetails \<Rightarrow> CartPositionDisplay" where
  "displayLine pos (Inl error) =
     \<lparr>articleNumber = articleNumber pos, quantity = quantity pos,
      description = JsString '''', price = JsNumber 0,
      imageUrl = articleImageUrl (articleNumber pos)\<rparr>"
| "displayLine pos (Inr articleDetails) =
     \<lparr>articleNumber = articleNumber pos, quantity = quantity pos,
      description =
        (if truthy (ArticleDetails.description articleDetails)
         then ArticleDetails.description articleDetails else JsString ''''),
      price = normalPrice articleDetails,
      imageUrl = articleImageUrl (articleNumber pos)\<rparr>"



text \<open>
  Example networks and an example storage. The first catalog knows the article 095210
  and answers every other request with status 404. The second answers every request
  with status 200 and the body \<open>{}\<close>. Alice's cart holds the known article and another.
\<close>

definition butterOnly :: "unit fetch" where
  "butterOnly url w =
     (if url = ''https://webshop.transgourmet.ch/api/webshop/hub/bgh/articledetails/095210''
      then (Inr \<lparr>ok = True, status = 200, statusText = ''OK'',
                  json = Inr (JsObject ((\<lambda>name. JsUndefined)
                                (''description'' := JsString ''Butter'',
                                 ''articleNumber'' := JsString ''095210'',
                                 ''normalPrice'' := JsNumber 4.95)))\<rparr>, w)
      else (Inr \<lparr>ok = False, status = 404, statusText = ''Not Found'',
                  json = Inr JsNull\<rparr>, w))"


definition aliceStorage :: CartStorage where
  "aliceStorage =
     [''alice'' \<mapsto> \<lparr>Cart.positions = [\<lparr>articleNumber = ''095210'', quantity = Finite 2\<rparr>,
                                          \<lparr>articleNumber = ''X'', quantity = Finite 3\<rparr>]\<rparr>]"

section \<open>Adding numbers\<close>

text \<open>Within \<open>2^53\<close> the sum of two integers is a double, and \<open>+\<close> returns it.\<close>

lemma roundDouble_safe [simp]: "\<bar>n\<bar> \<le> 2 ^ 53 \<Longrightarrow> roundDouble n = Finite n"
  by (simp add: roundDouble_def)

lemma jsAdd_exact: "\<bar>a + b\<bar> \<le> 2 ^ 53 \<Longrightarrow> jsAdd (Finite a) (Finite b) = Finite (a + b)"
  by simp

lemma foldl_jsAdd_exact:
  "staysExact t ns \<Longrightarrow> foldl jsAdd (Finite t) (map Finite ns) = Finite (t + sum_list ns)"
proof (induction ns arbitrary: t)
  case Nil
  show ?case by simp
next
  case (Cons n ns)
  from Cons.prems have rest: "staysExact (t + n) ns" by simp
  then have "\<bar>t + n\<bar> \<le> 2 ^ 53" by (cases ns) simp_all
  then have "jsAdd (Finite t) (Finite n) = Finite (t + n)" by (rule jsAdd_exact)
  with Cons.IH [OF rest] show ?case by (simp add: add.assoc)
qed

text \<open>Above \<open>2^53\<close> it rounds: \<open>2^53 + 1\<close> lies halfway between two doubles and goes to the
  one with the even significand, \<open>2^53 + 3\<close> likewise; \<open>2^1024\<close> is out of range.\<close>

lemma roundDouble_rounds: "roundDouble 9007199254740993 = Finite 9007199254740992"
  by code_simp

lemma jsAdd_rounds:
  "jsAdd (Finite 9007199254740991) (Finite 2) = Finite 9007199254740992"
  "jsAdd (Finite 1) (Finite 9007199254740992) = Finite 9007199254740992"
  "jsAdd (Finite 9007199254740992) (Finite 1) = Finite 9007199254740992"
  "jsAdd (Finite 9007199254740992) (Finite 3) = Finite 9007199254740996"
  by code_simp+

lemma jsAdd_overflows:
  "jsAdd (Finite (2 ^ 1023)) (Finite (2 ^ 1023)) = PosInfinity"
  by code_simp

section \<open>The methods in terms of the recursion\<close>

text \<open>The index that \<open>findIndex\<close> returns, used as the source uses it, rewrites the first line for
  the article or finds none.\<close>

lemma findIndex_neg_iff: "findIndex P xs < 0 \<longleftrightarrow> (\<forall>x\<in>set xs. \<not> P x)"
  by (induction xs) (auto simp: Let_def)

lemma findIndex_ge_m1: "- 1 \<le> findIndex P xs"
  by (induction xs) (auto simp: Let_def)

lemma findIndex_first:
  "0 \<le> findIndex P xs \<Longrightarrow>
   nat (findIndex P xs) < length xs \<and> P (xs ! nat (findIndex P xs))
   \<and> (\<forall>j < nat (findIndex P xs). \<not> P (xs ! j))"
proof (induction xs)
  case Nil
  then show ?case by simp
next
  case (Cons x xs)
  show ?case
  proof (cases "P x")
    case True
    then show ?thesis by simp
  next
    case False
    with Cons.prems have nn: "0 \<le> findIndex P xs"
      by (simp add: Let_def split: if_splits)
    then have suc: "nat (findIndex P xs + 1) = Suc (nat (findIndex P xs))" by simp
    from Cons.IH [OF nn] False nn show ?thesis
      by (auto simp: Let_def suc less_Suc_eq_0_disj)
  qed
qed

lemma findIndex_upsert:
  "(let i = findIndex (\<lambda>pos. articleNumber pos = a) ps
    in if i \<ge> 0 then ps[nat i := f (ps ! nat i)]
       else ps @ [\<lparr>articleNumber = a, quantity = q\<rparr>]) = upsert f a q ps"
proof (induction ps)
  case Nil
  show ?case by simp
next
  case (Cons p ps)
  show ?case
  proof (cases "articleNumber p = a")
    case True
    then show ?thesis by simp
  next
    case False
    let ?i = "findIndex (\<lambda>pos. articleNumber pos = a) ps"
    show ?thesis
    proof (cases "?i < 0")
      case True
      with False Cons show ?thesis by (simp add: Let_def)
    next
      case False
      note nn = this
      then have "nat (?i + 1) = Suc (nat ?i)" by simp
      with nn \<open>articleNumber p \<noteq> a\<close> Cons show ?thesis by (simp add: Let_def)
    qed
  qed
qed

lemma upsert_found:
  "0 \<le> findIndex (\<lambda>pos. articleNumber pos = a) ps \<Longrightarrow>
   ps[nat (findIndex (\<lambda>pos. articleNumber pos = a) ps) :=
        f (ps ! nat (findIndex (\<lambda>pos. articleNumber pos = a) ps))] = upsert f a q ps"
  using findIndex_upsert [of a ps f q] by (simp add: Let_def)

lemma upsert_missing:
  "\<not> 0 \<le> findIndex (\<lambda>pos. articleNumber pos = a) ps \<Longrightarrow>
   ps @ [\<lparr>articleNumber = a, quantity = q\<rparr>] = upsert f a q ps"
  using findIndex_upsert [of a ps f q] by (simp add: Let_def)

lemma increase_found:
  "0 \<le> findIndex (\<lambda>pos. articleNumber pos = a) ps \<Longrightarrow>
   ps[nat (findIndex (\<lambda>pos. articleNumber pos = a) ps) :=
        (ps ! nat (findIndex (\<lambda>pos. articleNumber pos = a) ps))
          \<lparr>quantity := jsAdd (quantity (ps ! nat (findIndex (\<lambda>pos. articleNumber pos = a) ps))) q\<rparr>]
     = upsert (increase q) a q' ps"
  using upsert_found [of a ps "increase q" q'] by (simp add: increase_def)

lemma replace_found:
  "0 \<le> findIndex (\<lambda>pos. articleNumber pos = a) ps \<Longrightarrow>
   ps[nat (findIndex (\<lambda>pos. articleNumber pos = a) ps) :=
        (ps ! nat (findIndex (\<lambda>pos. articleNumber pos = a) ps))\<lparr>quantity := q\<rparr>]
     = upsert (replace q) a q' ps"
  using upsert_found [of a ps "replace q" q'] by (simp add: replace_def)

lemma getCartInternal_eq: "getCartInternal u s = (cartOf u s, s)"
  by (simp add: cartOf_def getCartInternal_def split: option.split)

lemma cartOf_simps [simp]:
  "s u = None \<Longrightarrow> cartOf u s = \<lparr>Cart.positions = []\<rparr>"
  "s u = Some c \<Longrightarrow> cartOf u s = c"
  by (simp_all add: cartOf_def getCartInternal_def)

lemma cartOf_upd [simp]: "cartOf u (s(u \<mapsto> c)) = c"
  by simp

lemma cartOf_upd_other [simp]: "v \<noteq> u \<Longrightarrow> cartOf v (s(u \<mapsto> c)) = cartOf v s"
  by (simp add: cartOf_def getCartInternal_def split: option.split)

lemma Cart_positions_update [simp]:
  "(c::Cart)\<lparr>Cart.positions := ps\<rparr> = \<lparr>Cart.positions = ps\<rparr>"
  by (cases c) simp

lemma addToCart_eq:
  "addToCart u a q s =
     (\<lparr>Cart.positions = upsert (increase q) a q (Cart.positions (cartOf u s))\<rparr>,
      s(u \<mapsto> \<lparr>Cart.positions = upsert (increase q) a q (Cart.positions (cartOf u s))\<rparr>))"
  unfolding addToCart_def getCartInternal_eq
  by (simp add: Let_def increase_found [of a _ q q]
        upsert_missing [of a _ q "increase q"])

lemma updateCartPosition_eq:
  "updateCartPosition u a q s =
     (\<lparr>Cart.positions = upsert (replace q) a q (Cart.positions (cartOf u s))\<rparr>,
      s(u \<mapsto> \<lparr>Cart.positions = upsert (replace q) a q (Cart.positions (cartOf u s))\<rparr>))"
  unfolding updateCartPosition_def getCartInternal_eq
  by (simp add: Let_def replace_found [of a _ q q]
        upsert_missing [of a _ q "replace q"])

lemma addMultipleToCart_loop_eq:
  "Cart.positions (addMultipleToCart_loop ls c) =
     fold (\<lambda>l ps. upsert (increase (quantity l)) (articleNumber l) (quantity l) ps) ls (Cart.positions c)"
proof (induction ls arbitrary: c)
  case Nil
  show ?case by simp
next
  case (Cons l ls)
  show ?case
    by (simp add: Let_def Cons.IH
        increase_found [of "articleNumber l" _ "quantity l" "quantity l"]
        upsert_missing [of "articleNumber l" _ "quantity l" "increase (quantity l)"])
qed

lemma addMultipleToCart_eq:
  "addMultipleToCart u ls s =
     (addMultipleToCart_loop ls (cartOf u s), s(u \<mapsto> addMultipleToCart_loop ls (cartOf u s)))"
  unfolding addMultipleToCart_def getCartInternal_eq by (simp add: Let_def)

lemma removeFromCart_eq:
  "removeFromCart u a s =
     (\<lparr>Cart.positions = filter (\<lambda>pos. articleNumber pos \<noteq> a) (Cart.positions (cartOf u s))\<rparr>,
      s(u \<mapsto> \<lparr>Cart.positions = filter (\<lambda>pos. articleNumber pos \<noteq> a) (Cart.positions (cartOf u s))\<rparr>))"
  unfolding removeFromCart_def getCartInternal_eq by (simp add: Let_def)

lemma addMultipleToCart_loop_step:
  "addMultipleToCart_loop (l # ls) c =
     addMultipleToCart_loop ls (fst (addToCart u (articleNumber l) (quantity l) (s(u \<mapsto> c))))"
proof -
  have "addMultipleToCart_loop (l # ls) c =
          addMultipleToCart_loop ls
            \<lparr>Cart.positions =
               upsert (increase (quantity l)) (articleNumber l) (quantity l) (Cart.positions c)\<rparr>"
    by (simp add: Let_def
        increase_found [of "articleNumber l" _ "quantity l" "quantity l"]
        upsert_missing [of "articleNumber l" _ "quantity l" "increase (quantity l)"])
  then show ?thesis by (simp add: addToCart_eq)
qed

section \<open>Properties of the recursion\<close>

text \<open>What rewriting or appending a line does to the article numbers, to the lines of the
  article and to the lines of the other articles.\<close>

lemma keepsArticle_increase [simp]: "keepsArticle (increase q)"
  by (simp add: keepsArticle_def increase_def)

lemma keepsArticle_replace [simp]: "keepsArticle (replace q)"
  by (simp add: keepsArticle_def replace_def)

lemma upsert_articles:
  "keepsArticle f \<Longrightarrow>
   map articleNumber (upsert f a q ps) =
     (if a \<in> set (map articleNumber ps) then map articleNumber ps
      else map articleNumber ps @ [a])"
  by (induction ps) (auto simp: keepsArticle_def)

lemma upsert_distinct:
  "keepsArticle f \<Longrightarrow> distinct (map articleNumber ps) \<Longrightarrow>
   distinct (map articleNumber (upsert f a q ps))"
  by (simp add: upsert_articles)

lemma upsert_others:
  "keepsArticle f \<Longrightarrow>
   filter (\<lambda>p. articleNumber p \<noteq> a) (upsert f a q ps) = filter (\<lambda>p. articleNumber p \<noteq> a) ps"
  by (induction ps) (auto simp: keepsArticle_def)

lemma upsert_fresh:
  "a \<notin> set (map articleNumber ps) \<Longrightarrow>
   filter (\<lambda>p. articleNumber p = a) (upsert f a q ps) = [\<lparr>articleNumber = a, quantity = q\<rparr>]"
  by (induction ps) auto

lemma upsert_single:
  "keepsArticle f \<Longrightarrow> filter (\<lambda>p. articleNumber p = a) ps = [p] \<Longrightarrow>
   filter (\<lambda>p. articleNumber p = a) (upsert f a q ps) = [f p]"
  by (induction ps) (auto simp: keepsArticle_def split: if_splits)

lemma upsert_find:
  "keepsArticle f \<Longrightarrow>
   find (\<lambda>p. articleNumber p = a) (upsert f a q ps) =
     Some (case find (\<lambda>p. articleNumber p = a) ps of
             None \<Rightarrow> \<lparr>articleNumber = a, quantity = q\<rparr> | Some p \<Rightarrow> f p)"
  by (induction ps) (auto simp: keepsArticle_def)

lemma filter_distinct_article:
  "distinct (map articleNumber ps) \<Longrightarrow>
   filter (\<lambda>p. articleNumber p = a) ps =
     (case find (\<lambda>p. articleNumber p = a) ps of None \<Rightarrow> [] | Some p \<Rightarrow> [p])"
proof (induction ps)
  case Nil
  show ?case by simp
next
  case (Cons p ps)
  show ?case
  proof (cases "articleNumber p = a")
    case True
    from Cons.prems have "articleNumber p \<notin> articleNumber ` set ps" by simp
    then have "\<forall>x\<in>set ps. articleNumber x \<noteq> articleNumber p" by (metis imageI)
    with True have "\<forall>x\<in>set ps. articleNumber x \<noteq> a" by simp
    then have "filter (\<lambda>p. articleNumber p = a) ps = []" by (simp add: filter_empty_conv)
    with True show ?thesis by simp
  next
    case False
    with Cons show ?thesis by simp
  qed
qed

lemma replace_line: "articleNumber p = a \<Longrightarrow> replace q p = \<lparr>articleNumber = a, quantity = q\<rparr>"
  by (cases p) (simp add: replace_def)

lemma increase_line:
  "increase q \<lparr>articleNumber = a, quantity = q0\<rparr> = \<lparr>articleNumber = a, quantity = jsAdd q0 q\<rparr>"
  by (simp add: increase_def)

lemma find_article: "find (\<lambda>p. articleNumber p = a) ps = Some p \<Longrightarrow> articleNumber p = a"
  by (induction ps) (auto split: if_splits)

section \<open>Reading and writing the storage\<close>

text \<open>
  Claim C9. For a user without a stored cart, the raw read and the read with product
  details return an empty cart and hand back the storage as it was, so the user still
  has no entry.
\<close>

theorem reads_do_not_store:
  assumes "cartStorage username = None"
  shows "getCartInternal username cartStorage = (\<lparr>Cart.positions = []\<rparr>, cartStorage)
       \<and> getCart lookup username cartStorage w
           = (\<lparr>CartDisplay.positions = [], totalPositions = Finite 0\<rparr>, cartStorage, w)
       \<and> username \<notin> dom (snd (getCartInternal username cartStorage))
       \<and> username \<notin> dom (fst (snd (getCart lookup username cartStorage w)))"
  using assms by (simp add: getCartInternal_def getCart_def domIff)

theorem reads_do_not_store_witness:
  "[''alice'' \<mapsto> \<lparr>Cart.positions = [\<lparr>articleNumber = ''A'', quantity = Finite 1\<rparr>]\<rparr>] ''dave'' = None
   \<and> getCartInternal ''dave''
        [''alice'' \<mapsto> \<lparr>Cart.positions = [\<lparr>articleNumber = ''A'', quantity = Finite 1\<rparr>]\<rparr>]
      = (\<lparr>Cart.positions = []\<rparr>,
         [''alice'' \<mapsto> \<lparr>Cart.positions = [\<lparr>articleNumber = ''A'', quantity = Finite 1\<rparr>]\<rparr>])
   \<and> getCart (\<lambda>a w. (Inl (FetchFailed ''lookup failed''), w)) ''dave''
        [''alice'' \<mapsto> \<lparr>Cart.positions = [\<lparr>articleNumber = ''A'', quantity = Finite 1\<rparr>]\<rparr>] ()
      = (\<lparr>CartDisplay.positions = [], totalPositions = Finite 0\<rparr>,
         [''alice'' \<mapsto> \<lparr>Cart.positions = [\<lparr>articleNumber = ''A'', quantity = Finite 1\<rparr>]\<rparr>], ())
   \<and> ''dave'' \<notin> dom (snd (getCartInternal ''dave''
        [''alice'' \<mapsto> \<lparr>Cart.positions = [\<lparr>articleNumber = ''A'', quantity = Finite 1\<rparr>]\<rparr>]))"
proof -
  let ?s = "[''alice'' \<mapsto> \<lparr>Cart.positions = [\<lparr>articleNumber = ''A'', quantity = Finite 1\<rparr>]\<rparr>]"
  have none: "?s ''dave'' = None" by simp
  from reads_do_not_store [where cartStorage = "?s" and username = "''dave''"
      and lookup = "\<lambda>a w. (Inl (FetchFailed ''lookup failed''), w)" and w = "()", OF none] none
  show ?thesis by blast
qed

text \<open>
  Claim C10. Each mutation stores the cart it returns under the user's name, whatever
  the storage held. So \<open>removeFromCart\<close> for a user without a stored cart creates an
  entry holding an empty cart, whatever the article number.
\<close>

theorem mutations_write_back:
  "snd (addToCart username articleNo qty cartStorage) username
     = Some (fst (addToCart username articleNo qty cartStorage))
   \<and> snd (addMultipleToCart username newPositions cartStorage) username
     = Some (fst (addMultipleToCart username newPositions cartStorage))
   \<and> snd (removeFromCart username articleNo cartStorage) username
     = Some (fst (removeFromCart username articleNo cartStorage))
   \<and> snd (updateCartPosition username articleNo qty cartStorage) username
     = Some (fst (updateCartPosition username articleNo qty cartStorage))
   \<and> clearCart username cartStorage username = Some \<lparr>Cart.positions = []\<rparr>
   \<and> (cartStorage username = None \<longrightarrow>
        removeFromCart username articleNo cartStorage
          = (\<lparr>Cart.positions = []\<rparr>, cartStorage(username \<mapsto> \<lparr>Cart.positions = []\<rparr>))
        \<and> dom (snd (removeFromCart username articleNo cartStorage))
          = insert username (dom cartStorage))"
  by (simp add: addToCart_eq addMultipleToCart_eq removeFromCart_eq updateCartPosition_eq
      clearCart_def)

theorem mutations_write_back_witness:
  "(Map.empty :: CartStorage) ''carol'' = None
   \<and> removeFromCart ''carol'' ''095210'' Map.empty
       = (\<lparr>Cart.positions = []\<rparr>, [''carol'' \<mapsto> \<lparr>Cart.positions = []\<rparr>])
   \<and> dom (snd (removeFromCart ''carol'' ''095210'' Map.empty)) = {''carol''}"
  using mutations_write_back [of "''carol''" "''095210''" "Finite 0" Map.empty "[]"]
  by simp

section \<open>Adding lines\<close>

lemma fold_addToCart_single:
  "filter (\<lambda>p. articleNumber p = a) (Cart.positions (cartOf u s))
     = [\<lparr>articleNumber = a, quantity = q0\<rparr>] \<Longrightarrow>
   filter (\<lambda>p. articleNumber p = a)
     (Cart.positions (cartOf u (fold (\<lambda>q s. snd (addToCart u a q s)) qs s)))
     = [\<lparr>articleNumber = a, quantity = foldl jsAdd q0 qs\<rparr>]"
proof (induction qs arbitrary: s q0)
  case Nil
  then show ?case by simp
next
  case (Cons q qs)
  let ?s1 = "snd (addToCart u a q s)"
  have "filter (\<lambda>p. articleNumber p = a) (Cart.positions (cartOf u ?s1))
          = [\<lparr>articleNumber = a, quantity = jsAdd q0 q\<rparr>]"
    using Cons.prems by (simp add: addToCart_eq upsert_single increase_line)
  from Cons.IH [OF this] show ?case by simp
qed

lemma fold_addToCart_fresh:
  assumes "a \<notin> set (map articleNumber (Cart.positions (cartOf u s)))"
  shows "filter (\<lambda>p. articleNumber p = a)
           (Cart.positions (cartOf u (fold (\<lambda>q s. snd (addToCart u a q s)) (q # qs) s)))
         = [\<lparr>articleNumber = a, quantity = foldl jsAdd q qs\<rparr>]"
proof -
  from assms have "filter (\<lambda>p. articleNumber p = a)
          (Cart.positions (cartOf u (snd (addToCart u a q s))))
          = [\<lparr>articleNumber = a, quantity = q\<rparr>]"
    by (simp add: addToCart_eq upsert_fresh)
  from fold_addToCart_single [OF this, of qs] show ?thesis by simp
qed

text \<open>
  Claim C2, as amended. After one or more \<open>addToCart\<close> calls for one user and one article
  number, starting from a cart that has no line for the article (an unknown user
  included), the cart holds exactly one line for the article; its quantity is the
  result of adding the quantities one after the other as \<open>+=\<close> does. When the added
  quantities are integers whose running total stays within \<open>2^53\<close> in magnitude, that
  quantity is their sum. Starting from a cart whose only line for the article has the
  integer quantity \<open>n0\<close>, with the running total from \<open>n0\<close> on within \<open>2^53\<close>, the result is
  one line with \<open>n0\<close> plus the sum.
\<close>

theorem addToCart_additive:
  "(articleNo \<notin> articleNumber ` set (Cart.positions (fst (getCartInternal username cartStorage)))
      \<and> qtys \<noteq> [] \<longrightarrow>
    filter (\<lambda>pos. articleNumber pos = articleNo)
      (Cart.positions (fst (getCartInternal username
         (fold (\<lambda>qty s. snd (addToCart username articleNo qty s)) qtys cartStorage))))
    = [\<lparr>articleNumber = articleNo, quantity = foldl jsAdd (hd qtys) (tl qtys)\<rparr>])
   \<and> (articleNo \<notin> articleNumber ` set (Cart.positions (fst (getCartInternal username cartStorage)))
      \<and> ns \<noteq> [] \<and> staysExact 0 ns \<longrightarrow>
    filter (\<lambda>pos. articleNumber pos = articleNo)
      (Cart.positions (fst (getCartInternal username
         (fold (\<lambda>qty s. snd (addToCart username articleNo qty s)) (map Finite ns) cartStorage))))
    = [\<lparr>articleNumber = articleNo, quantity = Finite (sum_list ns)\<rparr>])
   \<and> (filter (\<lambda>pos. articleNumber pos = articleNo)
         (Cart.positions (fst (getCartInternal username cartStorage)))
       = [\<lparr>articleNumber = articleNo, quantity = Finite n0\<rparr>]
      \<and> staysExact n0 ns \<longrightarrow>
      filter (\<lambda>pos. articleNumber pos = articleNo)
        (Cart.positions (fst (getCartInternal username
           (fold (\<lambda>qty s. snd (addToCart username articleNo qty s)) (map Finite ns) cartStorage))))
      = [\<lparr>articleNumber = articleNo, quantity = Finite (n0 + sum_list ns)\<rparr>])"
proof (intro conjI impI)
  assume "articleNo \<notin> articleNumber ` set (Cart.positions (fst (getCartInternal username cartStorage)))
      \<and> qtys \<noteq> []"
  then have fresh: "articleNo \<notin> set (map articleNumber (Cart.positions (cartOf username cartStorage)))"
    and calls: "qtys \<noteq> []"
    by (simp_all add: cartOf_def)
  from calls obtain q qs where qtys: "qtys = q # qs" by (cases qtys) auto
  from fold_addToCart_fresh [OF fresh, of q qs]
  show "filter (\<lambda>pos. articleNumber pos = articleNo)
      (Cart.positions (fst (getCartInternal username
         (fold (\<lambda>qty s. snd (addToCart username articleNo qty s)) qtys cartStorage))))
    = [\<lparr>articleNumber = articleNo, quantity = foldl jsAdd (hd qtys) (tl qtys)\<rparr>]"
    unfolding cartOf_def by (simp add: qtys)
next
  assume "articleNo \<notin> articleNumber ` set (Cart.positions (fst (getCartInternal username cartStorage)))
      \<and> ns \<noteq> [] \<and> staysExact 0 ns"
  then have fresh: "articleNo \<notin> set (map articleNumber (Cart.positions (cartOf username cartStorage)))"
    and calls: "ns \<noteq> []" and exact: "staysExact 0 ns"
    by (simp_all add: cartOf_def)
  from calls obtain n ms where ns: "ns = n # ms" by (cases ns) auto
  from exact have "staysExact n ms" by (simp add: ns)
  then have "foldl jsAdd (Finite n) (map Finite ms) = Finite (n + sum_list ms)"
    by (rule foldl_jsAdd_exact)
  with fold_addToCart_fresh [OF fresh, of "Finite n" "map Finite ms"]
  show "filter (\<lambda>pos. articleNumber pos = articleNo)
      (Cart.positions (fst (getCartInternal username
         (fold (\<lambda>qty s. snd (addToCart username articleNo qty s)) (map Finite ns) cartStorage))))
    = [\<lparr>articleNumber = articleNo, quantity = Finite (sum_list ns)\<rparr>]"
    unfolding cartOf_def by (simp add: ns)
next
  assume "filter (\<lambda>pos. articleNumber pos = articleNo)
         (Cart.positions (fst (getCartInternal username cartStorage)))
       = [\<lparr>articleNumber = articleNo, quantity = Finite n0\<rparr>]
      \<and> staysExact n0 ns"
  then have stored: "filter (\<lambda>pos. articleNumber pos = articleNo)
         (Cart.positions (cartOf username cartStorage))
       = [\<lparr>articleNumber = articleNo, quantity = Finite n0\<rparr>]"
    and exact: "staysExact n0 ns"
    by (simp_all add: cartOf_def)
  from exact have "foldl jsAdd (Finite n0) (map Finite ns) = Finite (n0 + sum_list ns)"
    by (rule foldl_jsAdd_exact)
  with fold_addToCart_single [OF stored, of "map Finite ns"]
  show "filter (\<lambda>pos. articleNumber pos = articleNo)
        (Cart.positions (fst (getCartInternal username
           (fold (\<lambda>qty s. snd (addToCart username articleNo qty s)) (map Finite ns) cartStorage))))
      = [\<lparr>articleNumber = articleNo, quantity = Finite (n0 + sum_list ns)\<rparr>]"
    unfolding cartOf_def by simp
qed

theorem addToCart_additive_witness:
  "''095210'' \<notin> articleNumber ` set (Cart.positions (fst (getCartInternal ''alice'' Map.empty)))
   \<and> [1, 2 :: int] \<noteq> []
   \<and> staysExact 0 [1, 2]
   \<and> filter (\<lambda>pos. articleNumber pos = ''095210'')
         (Cart.positions (fst (getCartInternal ''alice''
            (fold (\<lambda>qty s. snd (addToCart ''alice'' ''095210'' qty s))
               (map Finite [1, 2]) Map.empty))))
       = [\<lparr>articleNumber = ''095210'', quantity = Finite 3\<rparr>]
   \<and> fst (getCartInternal ''alice''
          (snd (addToCart ''alice'' ''095210'' (Finite 2)
             (snd (addToCart ''alice'' ''095210'' (Finite 1) Map.empty)))))
       = \<lparr>Cart.positions = [\<lparr>articleNumber = ''095210'', quantity = Finite 3\<rparr>]\<rparr>
   \<and> filter (\<lambda>pos. articleNumber pos = ''095210'')
         (Cart.positions (fst (getCartInternal ''alice'' aliceStorage)))
       = [\<lparr>articleNumber = ''095210'', quantity = Finite 2\<rparr>]
   \<and> staysExact 2 [4, 1]
   \<and> filter (\<lambda>pos. articleNumber pos = ''095210'')
         (Cart.positions (fst (getCartInternal ''alice''
            (fold (\<lambda>qty s. snd (addToCart ''alice'' ''095210'' qty s))
               (map Finite [4, 1]) aliceStorage))))
       = [\<lparr>articleNumber = ''095210'', quantity = Finite 7\<rparr>]"
proof -
  have fresh: "''095210'' \<notin> articleNumber ` set (Cart.positions (fst (getCartInternal ''alice'' Map.empty)))"
    by (simp add: getCartInternal_def)
  have calls: "[1, 2 :: int] \<noteq> []" by simp
  have exact: "staysExact 0 [1, 2]" by simp
  from addToCart_additive [of "''095210''" "''alice''" Map.empty "map Finite [1, 2]" "[1, 2]" 0]
    fresh calls exact
  have summed: "filter (\<lambda>pos. articleNumber pos = ''095210'')
         (Cart.positions (fst (getCartInternal ''alice''
            (fold (\<lambda>qty s. snd (addToCart ''alice'' ''095210'' qty s))
               (map Finite [1, 2]) Map.empty))))
       = [\<lparr>articleNumber = ''095210'', quantity = Finite 3\<rparr>]"
    by (simp add:)
  have cart: "fst (getCartInternal ''alice''
          (snd (addToCart ''alice'' ''095210'' (Finite 2)
             (snd (addToCart ''alice'' ''095210'' (Finite 1) Map.empty)))))
       = \<lparr>Cart.positions = [\<lparr>articleNumber = ''095210'', quantity = Finite 3\<rparr>]\<rparr>"
    by (simp add: getCartInternal_def addToCart_def Let_def)
  have stored: "filter (\<lambda>pos. articleNumber pos = ''095210'')
         (Cart.positions (fst (getCartInternal ''alice'' aliceStorage)))
       = [\<lparr>articleNumber = ''095210'', quantity = Finite 2\<rparr>]"
    by (simp add: getCartInternal_def aliceStorage_def)
  have exact': "staysExact 2 [4, 1]" by simp
  from addToCart_additive [of "''095210''" "''alice''" aliceStorage "[]" "[4, 1]" 2]
    stored exact'
  have more: "filter (\<lambda>pos. articleNumber pos = ''095210'')
         (Cart.positions (fst (getCartInternal ''alice''
            (fold (\<lambda>qty s. snd (addToCart ''alice'' ''095210'' qty s))
               (map Finite [4, 1]) aliceStorage))))
       = [\<lparr>articleNumber = ''095210'', quantity = Finite 7\<rparr>]"
    by (simp add:)
  from fresh calls exact summed cart stored exact' more show ?thesis by (intro conjI)
qed

text \<open>
  Beyond \<open>2^53\<close> the stored quantity is not the sum: adding 9007199254740991 and then 2
  stores 9007199254740992.
\<close>

theorem addToCart_additive_counterexample:
  "filter (\<lambda>pos. articleNumber pos = ''095210'')
     (Cart.positions (fst (getCartInternal ''alice''
        (fold (\<lambda>qty s. snd (addToCart ''alice'' ''095210'' qty s))
           [Finite 9007199254740991, Finite 2] Map.empty))))
     = [\<lparr>articleNumber = ''095210'', quantity = Finite 9007199254740992\<rparr>]
   \<and> Finite 9007199254740992 \<noteq> Finite (sum_list [9007199254740991, 2])"
  by (simp add: getCartInternal_def addToCart_def Let_def jsAdd_rounds del: jsAdd.simps)

lemma fold_addToCart_stored:
  "s u = Some c \<Longrightarrow>
   fold (\<lambda>l s. snd (addToCart u (articleNumber l) (quantity l) s)) ls s
     = s(u \<mapsto> addMultipleToCart_loop ls c)"
proof (induction ls arbitrary: s c)
  case Nil
  then show ?case by (simp add: map_upd_triv)
next
  case (Cons l ls)
  let ?c1 = "fst (addToCart u (articleNumber l) (quantity l) s)"
  have s1: "snd (addToCart u (articleNumber l) (quantity l) s) = s(u \<mapsto> ?c1)"
    by (simp add: addToCart_eq)
  have "(s(u \<mapsto> ?c1)) u = Some ?c1" by simp
  then have "fold (\<lambda>l s. snd (addToCart u (articleNumber l) (quantity l) s)) ls (s(u \<mapsto> ?c1))
          = (s(u \<mapsto> ?c1))(u \<mapsto> addMultipleToCart_loop ls ?c1)"
    by (rule Cons.IH)
  then have rest: "fold (\<lambda>l s. snd (addToCart u (articleNumber l) (quantity l) s)) ls (s(u \<mapsto> ?c1))
          = s(u \<mapsto> addMultipleToCart_loop ls ?c1)"
    by simp
  have "?c1 = fst (addToCart u (articleNumber l) (quantity l) (s(u \<mapsto> c)))"
    using Cons.prems by (simp add: addToCart_eq)
  then have "addMultipleToCart_loop (l # ls) c = addMultipleToCart_loop ls ?c1"
    using addMultipleToCart_loop_step [of l ls c u s] by simp
  with rest s1 show ?case by simp
qed

lemma fold_addToCart_nonempty:
  "fold (\<lambda>l s. snd (addToCart u (articleNumber l) (quantity l) s)) (l # ls) s
     = s(u \<mapsto> addMultipleToCart_loop (l # ls) (cartOf u s))"
proof -
  let ?c1 = "fst (addToCart u (articleNumber l) (quantity l) s)"
  have s1: "snd (addToCart u (articleNumber l) (quantity l) s) = s(u \<mapsto> ?c1)"
    by (simp add: addToCart_eq)
  have "(s(u \<mapsto> ?c1)) u = Some ?c1" by simp
  then have "fold (\<lambda>l s. snd (addToCart u (articleNumber l) (quantity l) s)) ls (s(u \<mapsto> ?c1))
          = (s(u \<mapsto> ?c1))(u \<mapsto> addMultipleToCart_loop ls ?c1)"
    by (rule fold_addToCart_stored)
  then have rest: "fold (\<lambda>l s. snd (addToCart u (articleNumber l) (quantity l) s)) ls (s(u \<mapsto> ?c1))
          = s(u \<mapsto> addMultipleToCart_loop ls ?c1)"
    by simp
  have "?c1 = fst (addToCart u (articleNumber l) (quantity l) (s(u \<mapsto> cartOf u s)))"
    by (simp add: addToCart_eq)
  then have "addMultipleToCart_loop (l # ls) (cartOf u s) = addMultipleToCart_loop ls ?c1"
    using addMultipleToCart_loop_step [of l ls "cartOf u s" u s] by simp
  with rest s1 show ?thesis by simp
qed

text \<open>
  Claim C3, as amended. When the input is not empty, or the user already has a stored
  cart, \<open>addMultipleToCart\<close> leaves the storage that folding \<open>addToCart\<close> over the input
  lines, in their order, leaves. In every case the two storages give the same cart to a
  read, for every user. For an empty input and a user without a stored cart,
  \<open>addMultipleToCart\<close> adds an entry holding an empty cart, while the fold leaves the
  storage as it was.
\<close>

theorem addMultipleToCart_fold:
  "(newPositions \<noteq> [] \<or> username \<in> dom cartStorage \<longrightarrow>
      snd (addMultipleToCart username newPositions cartStorage)
        = fold (\<lambda>line s. snd (addToCart username (articleNumber line) (quantity line) s))
            newPositions cartStorage)
   \<and> (\<forall>v. fst (getCartInternal v (snd (addMultipleToCart username newPositions cartStorage)))
        = fst (getCartInternal v
            (fold (\<lambda>line s. snd (addToCart username (articleNumber line) (quantity line) s))
               newPositions cartStorage)))
   \<and> (newPositions = [] \<and> username \<notin> dom cartStorage \<longrightarrow>
        snd (addMultipleToCart username newPositions cartStorage)
          = cartStorage(username \<mapsto> \<lparr>Cart.positions = []\<rparr>)
        \<and> fold (\<lambda>line s. snd (addToCart username (articleNumber line) (quantity line) s))
            newPositions cartStorage = cartStorage
        \<and> snd (addMultipleToCart username newPositions cartStorage)
          \<noteq> fold (\<lambda>line s. snd (addToCart username (articleNumber line) (quantity line) s))
              newPositions cartStorage)"
proof -
  have same: "snd (addMultipleToCart username newPositions cartStorage)
        = fold (\<lambda>line s. snd (addToCart username (articleNumber line) (quantity line) s))
            newPositions cartStorage"
    if "newPositions \<noteq> [] \<or> username \<in> dom cartStorage"
    using that
  proof
    assume "newPositions \<noteq> []"
    then obtain l ls where "newPositions = l # ls" by (cases newPositions) auto
    then show ?thesis
      using fold_addToCart_nonempty [of username l ls cartStorage]
      by (simp add: addMultipleToCart_eq)
  next
    assume "username \<in> dom cartStorage"
    then obtain c where c: "cartStorage username = Some c" by auto
    then have "fold (\<lambda>line s. snd (addToCart username (articleNumber line) (quantity line) s))
            newPositions cartStorage = cartStorage(username \<mapsto> addMultipleToCart_loop newPositions c)"
      by (rule fold_addToCart_stored)
    with c show ?thesis
      by (simp add: addMultipleToCart_eq)
  qed
  have reads: "fst (getCartInternal v (snd (addMultipleToCart username newPositions cartStorage)))
        = fst (getCartInternal v
            (fold (\<lambda>line s. snd (addToCart username (articleNumber line) (quantity line) s))
               newPositions cartStorage))" for v
  proof (cases newPositions)
    case Nil
    then show ?thesis
      unfolding cartOf_def [symmetric]
      by (cases "v = username") (simp_all add: addMultipleToCart_eq)
  next
    case (Cons l ls)
    then show ?thesis
      using fold_addToCart_nonempty [of username l ls cartStorage]
      by (simp add: addMultipleToCart_eq)
  qed
  have differ: "snd (addMultipleToCart username newPositions cartStorage)
          = cartStorage(username \<mapsto> \<lparr>Cart.positions = []\<rparr>)
        \<and> fold (\<lambda>line s. snd (addToCart username (articleNumber line) (quantity line) s))
            newPositions cartStorage = cartStorage
        \<and> snd (addMultipleToCart username newPositions cartStorage)
          \<noteq> fold (\<lambda>line s. snd (addToCart username (articleNumber line) (quantity line) s))
              newPositions cartStorage"
    if "newPositions = [] \<and> username \<notin> dom cartStorage"
  proof -
    from that have empty: "newPositions = []" and absent: "cartStorage username = None"
      by (simp_all add: domIff)
    have created: "snd (addMultipleToCart username newPositions cartStorage)
          = cartStorage(username \<mapsto> \<lparr>Cart.positions = []\<rparr>)"
      using empty absent by (simp add: addMultipleToCart_eq)
    have untouched:
      "fold (\<lambda>line s. snd (addToCart username (articleNumber line) (quantity line) s))
            newPositions cartStorage = cartStorage"
      using empty by simp
    have "(cartStorage(username \<mapsto> \<lparr>Cart.positions = []\<rparr>)) username \<noteq> cartStorage username"
      using absent by simp
    then have "cartStorage(username \<mapsto> \<lparr>Cart.positions = []\<rparr>) \<noteq> cartStorage"
      by metis
    with created untouched show ?thesis by simp
  qed
  from same reads differ show ?thesis by blast
qed

theorem addMultipleToCart_fold_witness:
  "([\<lparr>articleNumber = ''A'', quantity = Finite 1\<rparr>, \<lparr>articleNumber = ''B'', quantity = Finite 2\<rparr>,
     \<lparr>articleNumber = ''A'', quantity = Finite 3\<rparr>] \<noteq> [])
   \<and> snd (addMultipleToCart ''bob''
         [\<lparr>articleNumber = ''A'', quantity = Finite 1\<rparr>, \<lparr>articleNumber = ''B'', quantity = Finite 2\<rparr>,
          \<lparr>articleNumber = ''A'', quantity = Finite 3\<rparr>] Map.empty)
       = fold (\<lambda>line s. snd (addToCart ''bob'' (articleNumber line) (quantity line) s))
           [\<lparr>articleNumber = ''A'', quantity = Finite 1\<rparr>, \<lparr>articleNumber = ''B'', quantity = Finite 2\<rparr>,
            \<lparr>articleNumber = ''A'', quantity = Finite 3\<rparr>] Map.empty
   \<and> fst (addMultipleToCart ''bob''
         [\<lparr>articleNumber = ''A'', quantity = Finite 1\<rparr>, \<lparr>articleNumber = ''B'', quantity = Finite 2\<rparr>,
          \<lparr>articleNumber = ''A'', quantity = Finite 3\<rparr>] Map.empty)
       = \<lparr>Cart.positions = [\<lparr>articleNumber = ''A'', quantity = Finite 4\<rparr>,
                             \<lparr>articleNumber = ''B'', quantity = Finite 2\<rparr>]\<rparr>
   \<and> fst (getCartItemCount ''bob'' (snd (addMultipleToCart ''bob''
         [\<lparr>articleNumber = ''A'', quantity = Finite 1\<rparr>, \<lparr>articleNumber = ''B'', quantity = Finite 2\<rparr>,
          \<lparr>articleNumber = ''A'', quantity = Finite 3\<rparr>] Map.empty))) = Finite 6
   \<and> ''carol'' \<notin> dom aliceStorage
   \<and> snd (addMultipleToCart ''carol'' [] aliceStorage)
       = aliceStorage(''carol'' \<mapsto> \<lparr>Cart.positions = []\<rparr>)
   \<and> fold (\<lambda>line s. snd (addToCart ''carol'' (articleNumber line) (quantity line) s))
        ([] :: CartPosition list) aliceStorage = aliceStorage"
proof -
  let ?lines = "[\<lparr>articleNumber = ''A'', quantity = Finite 1\<rparr>,
                 \<lparr>articleNumber = ''B'', quantity = Finite 2\<rparr>,
                 \<lparr>articleNumber = ''A'', quantity = Finite 3\<rparr>]"
  have nonempty: "?lines \<noteq> []" by simp
  from addMultipleToCart_fold [of ?lines "''bob''" Map.empty] nonempty
  have same: "snd (addMultipleToCart ''bob'' ?lines Map.empty)
       = fold (\<lambda>line s. snd (addToCart ''bob'' (articleNumber line) (quantity line) s))
           ?lines Map.empty"
    by blast
  have cart: "fst (addMultipleToCart ''bob'' ?lines Map.empty)
       = \<lparr>Cart.positions = [\<lparr>articleNumber = ''A'', quantity = Finite 4\<rparr>,
                             \<lparr>articleNumber = ''B'', quantity = Finite 2\<rparr>]\<rparr>"
    by (simp add: addMultipleToCart_def getCartInternal_def Let_def)
  have count: "fst (getCartItemCount ''bob'' (snd (addMultipleToCart ''bob'' ?lines Map.empty)))
       = Finite 6"
    by (simp add: addMultipleToCart_def getCartInternal_def getCartItemCount_def Let_def
       )
  have absent: "''carol'' \<notin> dom aliceStorage"
    by (simp add: aliceStorage_def)
  have both: "snd (addMultipleToCart ''carol'' [] aliceStorage)
       = aliceStorage(''carol'' \<mapsto> \<lparr>Cart.positions = []\<rparr>)
     \<and> fold (\<lambda>line s. snd (addToCart ''carol'' (articleNumber line) (quantity line) s))
        ([] :: CartPosition list) aliceStorage = aliceStorage
     \<and> snd (addMultipleToCart ''carol'' [] aliceStorage)
       \<noteq> fold (\<lambda>line s. snd (addToCart ''carol'' (articleNumber line) (quantity line) s))
          ([] :: CartPosition list) aliceStorage"
  proof (rule mp [OF addMultipleToCart_fold [of "[]" "''carol''" aliceStorage,
          THEN conjunct2, THEN conjunct2]])
    show "[] = ([] :: CartPosition list) \<and> ''carol'' \<notin> dom aliceStorage"
      using absent by simp
  qed
  then have created: "snd (addMultipleToCart ''carol'' [] aliceStorage)
       = aliceStorage(''carol'' \<mapsto> \<lparr>Cart.positions = []\<rparr>)"
    by (rule conjunct1)
  from both have untouched:
      "fold (\<lambda>line s. snd (addToCart ''carol'' (articleNumber line) (quantity line) s))
        ([] :: CartPosition list) aliceStorage = aliceStorage"
    by (rule conjunct2 [THEN conjunct1])
  from nonempty same cart count absent created untouched show ?thesis by (intro conjI)
qed

text \<open>
  For an empty input and a user without a stored cart, \<open>addMultipleToCart\<close> stores an
  empty cart, and folding \<open>addToCart\<close> over no line stores nothing.
\<close>

theorem addMultipleToCart_fold_counterexample:
  "snd (addMultipleToCart ''bob'' [] Map.empty)
     \<noteq> fold (\<lambda>line s. snd (addToCart ''bob'' (articleNumber line) (quantity line) s))
          ([] :: CartPosition list) Map.empty
   \<and> snd (addMultipleToCart ''bob'' [] Map.empty) ''bob'' = Some \<lparr>Cart.positions = []\<rparr>
   \<and> fold (\<lambda>line s. snd (addToCart ''bob'' (articleNumber line) (quantity line) s))
        ([] :: CartPosition list) Map.empty ''bob'' = None"
proof -
  have stored: "snd (addMultipleToCart ''bob'' [] Map.empty) ''bob'' = Some \<lparr>Cart.positions = []\<rparr>"
    by (simp add: addMultipleToCart_def getCartInternal_def)
  have untouched:
    "fold (\<lambda>line s. snd (addToCart ''bob'' (articleNumber line) (quantity line) s))
        ([] :: CartPosition list) Map.empty ''bob'' = None"
    by simp
  have "snd (addMultipleToCart ''bob'' [] Map.empty)
     \<noteq> fold (\<lambda>line s. snd (addToCart ''bob'' (articleNumber line) (quantity line) s))
          ([] :: CartPosition list) Map.empty"
  proof
    assume "snd (addMultipleToCart ''bob'' [] Map.empty)
      = fold (\<lambda>line s. snd (addToCart ''bob'' (articleNumber line) (quantity line) s))
          ([] :: CartPosition list) Map.empty"
    with stored untouched show False by simp
  qed
  with stored untouched show ?thesis by (intro conjI)
qed

section \<open>Setting a quantity\<close>

text \<open>
  Claim C7. \<open>updateCartPosition\<close> stores the returned cart; in it the line for the article
  carries exactly the given quantity, whatever the quantity was before; the lines of
  other articles are untouched; the order of the articles is kept when the line existed,
  and the article comes last when it did not. When the cart had at most one line per
  article, the new cart has exactly one line for the article.
\<close>

theorem updateCartPosition_replaces:
  "snd (updateCartPosition username articleNo qty cartStorage)
     = cartStorage(username \<mapsto> fst (updateCartPosition username articleNo qty cartStorage))
   \<and> find (\<lambda>pos. articleNumber pos = articleNo)
         (Cart.positions (fst (updateCartPosition username articleNo qty cartStorage)))
       = Some \<lparr>articleNumber = articleNo, quantity = qty\<rparr>
   \<and> filter (\<lambda>pos. articleNumber pos \<noteq> articleNo)
         (Cart.positions (fst (updateCartPosition username articleNo qty cartStorage)))
       = filter (\<lambda>pos. articleNumber pos \<noteq> articleNo)
           (Cart.positions (fst (getCartInternal username cartStorage)))
   \<and> map articleNumber
         (Cart.positions (fst (updateCartPosition username articleNo qty cartStorage)))
       = (if articleNo \<in> set (map articleNumber
                                (Cart.positions (fst (getCartInternal username cartStorage))))
          then map articleNumber (Cart.positions (fst (getCartInternal username cartStorage)))
          else map articleNumber (Cart.positions (fst (getCartInternal username cartStorage)))
                 @ [articleNo])
   \<and> (uniqueArticles (fst (getCartInternal username cartStorage)) \<longrightarrow>
        filter (\<lambda>pos. articleNumber pos = articleNo)
          (Cart.positions (fst (updateCartPosition username articleNo qty cartStorage)))
        = [\<lparr>articleNumber = articleNo, quantity = qty\<rparr>])"
proof -
  let ?ps = "Cart.positions (cartOf username cartStorage)"
  let ?ps' = "upsert (replace qty) articleNo qty ?ps"
  have found: "find (\<lambda>pos. articleNumber pos = articleNo) ?ps'
                 = Some \<lparr>articleNumber = articleNo, quantity = qty\<rparr>"
    by (auto simp: upsert_find replace_line dest: find_article split: option.split)
  have unique: "filter (\<lambda>pos. articleNumber pos = articleNo) ?ps'
                  = [\<lparr>articleNumber = articleNo, quantity = qty\<rparr>]"
    if "distinct (map articleNumber ?ps)"
  proof -
    from that have "distinct (map articleNumber ?ps')" by (simp add: upsert_distinct)
    then show ?thesis by (simp add: filter_distinct_article found)
  qed
  show ?thesis
    unfolding cartOf_def [symmetric]
    by (simp add: updateCartPosition_eq found unique upsert_others upsert_articles
        uniqueArticles_def)
qed

theorem updateCartPosition_replaces_witness:
  "uniqueArticles (fst (getCartInternal ''u'' (snd (addToCart ''u'' ''A'' (Finite 2) Map.empty))))
   \<and> filter (\<lambda>pos. articleNumber pos = ''A'')
        (Cart.positions (fst (updateCartPosition ''u'' ''A'' (Finite 5)
           (snd (addToCart ''u'' ''A'' (Finite 2) Map.empty)))))
      = [\<lparr>articleNumber = ''A'', quantity = Finite 5\<rparr>]
   \<and> fst (getCartInternal ''u''
        (snd (updateCartPosition ''u'' ''A'' (Finite 5) (snd (addToCart ''u'' ''A'' (Finite 2) Map.empty)))))
      = \<lparr>Cart.positions = [\<lparr>articleNumber = ''A'', quantity = Finite 5\<rparr>]\<rparr>
   \<and> fst (getCartInternal ''u'' (snd (updateCartPosition ''u'' ''B'' (Finite 4) Map.empty)))
      = \<lparr>Cart.positions = [\<lparr>articleNumber = ''B'', quantity = Finite 4\<rparr>]\<rparr>"
proof -
  let ?s = "snd (addToCart ''u'' ''A'' (Finite 2) Map.empty)"
  have u: "uniqueArticles (fst (getCartInternal ''u'' ?s))"
    by (simp add: uniqueArticles_def addToCart_def getCartInternal_def Let_def)
  have "filter (\<lambda>pos. articleNumber pos = ''A'')
        (Cart.positions (fst (updateCartPosition ''u'' ''A'' (Finite 5) ?s)))
      = [\<lparr>articleNumber = ''A'', quantity = Finite 5\<rparr>]"
    using updateCartPosition_replaces [of "''u''" "''A''" "Finite 5" ?s] u by blast
  moreover have "fst (getCartInternal ''u'' (snd (updateCartPosition ''u'' ''A'' (Finite 5) ?s)))
      = \<lparr>Cart.positions = [\<lparr>articleNumber = ''A'', quantity = Finite 5\<rparr>]\<rparr>"
    by (simp add: updateCartPosition_def addToCart_def getCartInternal_def Let_def)
  moreover have "fst (getCartInternal ''u'' (snd (updateCartPosition ''u'' ''B'' (Finite 4) Map.empty)))
      = \<lparr>Cart.positions = [\<lparr>articleNumber = ''B'', quantity = Finite 4\<rparr>]\<rparr>"
    by (simp add: updateCartPosition_def getCartInternal_def Let_def)
  ultimately show ?thesis using u by (intro conjI)
qed

section \<open>One line per article\<close>

lemma uniqueArticles_cartOf: "storageInvariant s \<Longrightarrow> uniqueArticles (cartOf u s)"
  by (cases "s u") (auto simp: storageInvariant_def uniqueArticles_def)

lemma storageInvariant_upd:
  "storageInvariant s \<Longrightarrow> uniqueArticles c \<Longrightarrow> storageInvariant (s(u \<mapsto> c))"
  by (simp add: storageInvariant_def)

lemma uniqueArticles_loop:
  "uniqueArticles c \<Longrightarrow> uniqueArticles (addMultipleToCart_loop ls c)"
proof -
  have "distinct (map articleNumber ps) \<Longrightarrow>
        distinct (map articleNumber
          (fold (\<lambda>l ps. upsert (increase (quantity l)) (articleNumber l) (quantity l) ps) ls ps))"
    for ps
    by (induction ls arbitrary: ps) (simp_all add: upsert_distinct)
  then show "uniqueArticles c \<Longrightarrow> uniqueArticles (addMultipleToCart_loop ls c)"
    by (simp add: uniqueArticles_def addMultipleToCart_loop_eq)
qed

lemma addToCart_invariant:
  "storageInvariant s \<Longrightarrow> storageInvariant (snd (addToCart u a q s))"
  using uniqueArticles_cartOf [of s u]
  by (simp add: addToCart_eq storageInvariant_upd uniqueArticles_def upsert_distinct)

lemma updateCartPosition_invariant:
  "storageInvariant s \<Longrightarrow> storageInvariant (snd (updateCartPosition u a q s))"
  using uniqueArticles_cartOf [of s u]
  by (simp add: updateCartPosition_eq storageInvariant_upd uniqueArticles_def upsert_distinct)

lemma removeFromCart_invariant:
  "storageInvariant s \<Longrightarrow> storageInvariant (snd (removeFromCart u a s))"
  using uniqueArticles_cartOf [of s u]
  by (simp add: removeFromCart_eq storageInvariant_upd uniqueArticles_def distinct_map_filter)

lemma addMultipleToCart_invariant:
  "storageInvariant s \<Longrightarrow> storageInvariant (snd (addMultipleToCart u ls s))"
  using uniqueArticles_cartOf [of s u]
  by (simp add: addMultipleToCart_eq storageInvariant_upd uniqueArticles_loop)

lemma clearCart_invariant:
  "storageInvariant s \<Longrightarrow> storageInvariant (clearCart u s)"
  by (simp add: clearCart_def storageInvariant_upd uniqueArticles_def)

lemma submitCart_storage:
  "fst (snd (submitCart randomUUID username cartStorage r)) = clearCart username cartStorage"
  by (simp add: submitCart_def split_def Let_def)

text \<open>
  Claim C6. Every operation that writes the storage keeps the invariant that each stored
  cart has at most one line per article number.
\<close>

theorem operations_keep_unique_articles:
  assumes "storageInvariant cartStorage"
  shows "storageInvariant (snd (addToCart username articleNo qty cartStorage))
       \<and> storageInvariant (snd (addMultipleToCart username newPositions cartStorage))
       \<and> storageInvariant (snd (removeFromCart username articleNo cartStorage))
       \<and> storageInvariant (snd (updateCartPosition username articleNo qty cartStorage))
       \<and> storageInvariant (clearCart username cartStorage)
       \<and> storageInvariant (fst (snd (submitCart randomUUID username cartStorage r)))"
  using assms
  by (simp add: addToCart_invariant addMultipleToCart_invariant removeFromCart_invariant
      updateCartPosition_invariant clearCart_invariant submitCart_storage)

theorem operations_keep_unique_articles_witness:
  "storageInvariant
     [''alice'' \<mapsto> \<lparr>Cart.positions = [\<lparr>articleNumber = ''A'', quantity = Finite 1\<rparr>,
                                          \<lparr>articleNumber = ''B'', quantity = Finite 2\<rparr>]\<rparr>]
   \<and> storageInvariant (snd (addToCart ''alice'' ''B'' (Finite 5)
        [''alice'' \<mapsto> \<lparr>Cart.positions = [\<lparr>articleNumber = ''A'', quantity = Finite 1\<rparr>,
                                             \<lparr>articleNumber = ''B'', quantity = Finite 2\<rparr>]\<rparr>]))
   \<and> snd (addToCart ''alice'' ''B'' (Finite 5)
        [''alice'' \<mapsto> \<lparr>Cart.positions = [\<lparr>articleNumber = ''A'', quantity = Finite 1\<rparr>,
                                             \<lparr>articleNumber = ''B'', quantity = Finite 2\<rparr>]\<rparr>])
       = [''alice'' \<mapsto> \<lparr>Cart.positions = [\<lparr>articleNumber = ''A'', quantity = Finite 1\<rparr>,
                                              \<lparr>articleNumber = ''B'', quantity = Finite 7\<rparr>]\<rparr>]"
proof -
  let ?s = "[''alice'' \<mapsto> \<lparr>Cart.positions = [\<lparr>articleNumber = ''A'', quantity = Finite 1\<rparr>,
                                          \<lparr>articleNumber = ''B'', quantity = Finite 2\<rparr>]\<rparr>]"
  have inv: "storageInvariant ?s"
    by (simp add: storageInvariant_def uniqueArticles_def)
  have kept: "storageInvariant (snd (addToCart ''alice'' ''B'' (Finite 5) ?s))"
    using operations_keep_unique_articles [OF inv, of "''alice''" "''B''" "Finite 5"]
    by (rule conjunct1)
  have result: "snd (addToCart ''alice'' ''B'' (Finite 5) ?s)
       = [''alice'' \<mapsto> \<lparr>Cart.positions = [\<lparr>articleNumber = ''A'', quantity = Finite 1\<rparr>,
                                              \<lparr>articleNumber = ''B'', quantity = Finite 7\<rparr>]\<rparr>]"
    by (simp add: addToCart_def getCartInternal_def Let_def)
  from inv kept result show ?thesis by (intro conjI)
qed

section \<open>The cart with product details\<close>



text \<open>The loop of \<open>getCart\<close> makes one display line per stored line, from the outcome of
  that line's lookup.\<close>

lemma length_lookupOutcomes [simp]: "length (lookupOutcomes lookup ps w) = length ps"
  by (induction ps arbitrary: w) (auto split: prod.split)

lemma getCart_loop_eq:
  "fst (getCart_loop lookup ps acc w) = acc @ map2 displayLine ps (lookupOutcomes lookup ps w)"
proof (induction ps arbitrary: acc w)
  case Nil
  show ?case by simp
next
  case (Cons p ps)
  show ?case
  proof (cases "lookup (articleNumber p) w")
    case (Pair outcome w')
    then show ?thesis by (cases outcome) (simp_all add: Cons.IH)
  qed
qed

lemma getCart_positions:
  "CartDisplay.positions (fst (getCart lookup u s w))
     = map2 displayLine (Cart.positions (cartOf u s))
         (lookupOutcomes lookup (Cart.positions (cartOf u s)) w)"
  using getCart_loop_eq [of lookup "Cart.positions (cartOf u s)" "[]" w]
  by (simp add: getCart_def getCartInternal_eq split_def Let_def)

lemma getCart_storage: "fst (snd (getCart lookup u s w)) = s"
  by (simp add: getCart_def getCartInternal_eq split_def Let_def)

lemma foldl_quantity:
  "foldl (\<lambda>total pos. jsAdd total (quantity pos)) t ps = foldl jsAdd t (map quantity ps)"
  by (induction ps arbitrary: t) simp_all

lemma getCart_totalPositions:
  "totalPositions (fst (getCart lookup u s w))
     = foldl jsAdd (Finite 0) (map quantity (CartDisplay.positions (fst (getCart lookup u s w))))"
  by (simp add: getCart_def getCartInternal_eq split_def Let_def foldl_quantity)

lemma getCartItemCount_eq:
  "fst (getCartItemCount u s) = foldl jsAdd (Finite 0) (map quantity (Cart.positions (cartOf u s)))"
  by (simp add: getCartItemCount_def getCartInternal_eq foldl_quantity)

lemma quantity_displayLine [simp]: "quantity (displayLine p out) = quantity p"
  by (cases out) simp_all

lemma articleNumber_displayLine [simp]: "articleNumber (displayLine p out) = articleNumber p"
  by (cases out) simp_all

lemma map2_displayLine_quantity:
  "length outs = length ps \<Longrightarrow> map quantity (map2 displayLine ps outs) = map quantity ps"
  by (induction ps outs rule: list_induct2') simp_all

lemma map2_displayLine_key:
  "length outs = length ps \<Longrightarrow>
   map (\<lambda>d. (articleNumber d, quantity d)) (map2 displayLine ps outs)
     = map (\<lambda>p. (articleNumber p, quantity p)) ps"
  by (induction ps outs rule: list_induct2') simp_all

lemma getCart_quantities:
  "map quantity (CartDisplay.positions (fst (getCart lookup u s w)))
     = map quantity (Cart.positions (cartOf u s))"
  unfolding getCart_positions by (rule map2_displayLine_quantity) simp

lemma getCart_keys:
  "map (\<lambda>d. (articleNumber d, quantity d)) (CartDisplay.positions (fst (getCart lookup u s w)))
     = map (\<lambda>p. (articleNumber p, quantity p)) (Cart.positions (cartOf u s))"
  unfolding getCart_positions by (rule map2_displayLine_key) simp






text \<open>
  Claim C4. The display lines that \<open>getCart\<close> returns are the stored lines in their stored
  order, one for one with the same article number and quantity, for every catalog and
  every outcome of its lookups.
\<close>

theorem getCart_keeps_order:
  "map (\<lambda>d. (articleNumber d, quantity d))
     (CartDisplay.positions (fst (getCart lookup username cartStorage w)))
   = map (\<lambda>pos. (articleNumber pos, quantity pos))
       (Cart.positions (fst (getCartInternal username cartStorage)))"
  unfolding cartOf_def [symmetric] by (rule getCart_keys)

theorem getCart_keeps_order_witness:
  "map articleNumber (CartDisplay.positions (fst (getCart
       (\<lambda>articleNo w. if articleNo = ''A'' then (Inl ArticleDataNotFound, w)
          else (Inr \<lparr>ArticleDetails.description = JsString ''Butter'',
                     ArticleDetails.articleNumber = JsString articleNo,
                     normalPrice = JsNumber 4.95\<rparr>, w))
       ''alice''
       [''alice'' \<mapsto> \<lparr>Cart.positions = [\<lparr>articleNumber = ''B'', quantity = Finite 1\<rparr>,
                                            \<lparr>articleNumber = ''A'', quantity = Finite 2\<rparr>,
                                            \<lparr>articleNumber = ''C'', quantity = Finite 3\<rparr>]\<rparr>] ())))
     = [''B'', ''A'', ''C'']"
proof -
  let ?lookup = "\<lambda>articleNo w. if articleNo = ''A'' then (Inl ArticleDataNotFound, w)
          else (Inr \<lparr>ArticleDetails.description = JsString ''Butter'',
                     ArticleDetails.articleNumber = JsString articleNo,
                     normalPrice = JsNumber 4.95\<rparr>, w)"
  let ?s = "[''alice'' \<mapsto> \<lparr>Cart.positions = [\<lparr>articleNumber = ''B'', quantity = Finite 1\<rparr>,
                                            \<lparr>articleNumber = ''A'', quantity = Finite 2\<rparr>,
                                            \<lparr>articleNumber = ''C'', quantity = Finite 3\<rparr>]\<rparr>]"
  have "map fst (map (\<lambda>d. (articleNumber d, quantity d))
          (CartDisplay.positions (fst (getCart ?lookup ''alice'' ?s ()))))
        = map fst (map (\<lambda>pos. (articleNumber pos, quantity pos))
            (Cart.positions (fst (getCartInternal ''alice'' ?s))))"
    by (simp only: getCart_keeps_order [of ?lookup "''alice''" ?s "()"])
  then show ?thesis by (simp add: getCartInternal_def comp_def)
qed

text \<open>
  Claim C5, as amended. \<open>totalPositions\<close> is the result of adding the quantities of the
  display lines from the left, starting from 0, as \<open>+\<close> adds them; the display lines
  carry the stored quantities, degraded lines included, so it is what
  \<open>getCartItemCount\<close> returns for the stored lines. When the quantities are integers
  whose running total stays within \<open>2^53\<close> in magnitude, both are their sum. Both are 0
  for a user without a cart and for an empty cart.
\<close>

theorem totals_are_sums:
  "totalPositions (fst (getCart lookup username cartStorage w))
     = foldl jsAdd (Finite 0)
         (map quantity (CartDisplay.positions (fst (getCart lookup username cartStorage w))))
   \<and> map quantity (CartDisplay.positions (fst (getCart lookup username cartStorage w)))
     = map quantity (Cart.positions (fst (getCartInternal username cartStorage)))
   \<and> fst (getCartItemCount username cartStorage)
     = foldl jsAdd (Finite 0)
         (map quantity (Cart.positions (fst (getCartInternal username cartStorage))))
   \<and> totalPositions (fst (getCart lookup username cartStorage w))
     = fst (getCartItemCount username cartStorage)
   \<and> (map quantity (Cart.positions (fst (getCartInternal username cartStorage)))
         = map Finite ns \<and> staysExact 0 ns \<longrightarrow>
        totalPositions (fst (getCart lookup username cartStorage w)) = Finite (sum_list ns)
        \<and> fst (getCartItemCount username cartStorage) = Finite (sum_list ns))
   \<and> (cartStorage username = None \<longrightarrow>
        fst (getCartItemCount username cartStorage) = Finite 0)
   \<and> (cartStorage username = Some \<lparr>Cart.positions = []\<rparr> \<longrightarrow>
        fst (getCartItemCount username cartStorage) = Finite 0)"
proof -
  let ?stored = "map quantity (Cart.positions (cartOf username cartStorage))"
  have total: "totalPositions (fst (getCart lookup username cartStorage w))
     = foldl jsAdd (Finite 0)
         (map quantity (CartDisplay.positions (fst (getCart lookup username cartStorage w))))"
    by (rule getCart_totalPositions)
  have same: "map quantity (CartDisplay.positions (fst (getCart lookup username cartStorage w)))
     = ?stored"
    by (rule getCart_quantities)
  have count: "fst (getCartItemCount username cartStorage) = foldl jsAdd (Finite 0) ?stored"
    by (rule getCartItemCount_eq)
  have equal: "totalPositions (fst (getCart lookup username cartStorage w))
     = fst (getCartItemCount username cartStorage)"
    by (simp only: total same count)
  have exact: "totalPositions (fst (getCart lookup username cartStorage w)) = Finite (sum_list ns)
        \<and> fst (getCartItemCount username cartStorage) = Finite (sum_list ns)"
    if "?stored = map Finite ns \<and> staysExact 0 ns"
  proof -
    from that have "foldl jsAdd (Finite 0) ?stored = Finite (0 + sum_list ns)"
      by (simp only: foldl_jsAdd_exact)
    with equal count show ?thesis by simp
  qed
  have unknown: "fst (getCartItemCount username cartStorage) = Finite 0"
    if "cartStorage username = None"
    using that by (simp add: count)
  have empty: "fst (getCartItemCount username cartStorage) = Finite 0"
    if "cartStorage username = Some \<lparr>Cart.positions = []\<rparr>"
    using that by (simp add: count)
  from total same count equal exact unknown empty show ?thesis
    unfolding cartOf_def by blast
qed

theorem totals_are_sums_witness:
  "(Map.empty :: CartStorage) ''erin'' = None
   \<and> fst (getCartItemCount ''erin'' Map.empty) = Finite 0
   \<and> [''erin'' \<mapsto> \<lparr>Cart.positions = []\<rparr>] ''erin'' = Some \<lparr>Cart.positions = []\<rparr>
   \<and> fst (getCartItemCount ''erin'' [''erin'' \<mapsto> \<lparr>Cart.positions = []\<rparr>]) = Finite 0
   \<and> map quantity (Cart.positions (fst (getCartInternal ''alice'' aliceStorage)))
       = map Finite [2, 3]
   \<and> staysExact 0 [2, 3]
   \<and> fst (getCartItemCount ''alice'' aliceStorage) = Finite 5
   \<and> totalPositions
        (fst (getCart (fetchTransgourmetArticleDetails butterOnly) ''alice'' aliceStorage ()))
       = Finite 5"
proof -
  let ?lookup = "fetchTransgourmetArticleDetails butterOnly"
  have none: "(Map.empty :: CartStorage) ''erin'' = None" by simp
  have cleared: "[''erin'' \<mapsto> \<lparr>Cart.positions = []\<rparr>] ''erin'' = Some \<lparr>Cart.positions = []\<rparr>"
    by simp
  have quantities: "map quantity (Cart.positions (fst (getCartInternal ''alice'' aliceStorage)))
       = map Finite [2, 3]"
    by (simp add: getCartInternal_def aliceStorage_def)
  have exact: "staysExact 0 [2, 3]" by simp
  have zero: "fst (getCartItemCount ''erin'' Map.empty) = Finite 0"
    using totals_are_sums [of ?lookup "''erin''" Map.empty "()" "[]"] none by blast
  have zero': "fst (getCartItemCount ''erin'' [''erin'' \<mapsto> \<lparr>Cart.positions = []\<rparr>]) = Finite 0"
    using totals_are_sums [of ?lookup "''erin''" "[''erin'' \<mapsto> \<lparr>Cart.positions = []\<rparr>]" "()" "[]"]
      cleared by blast
  have both: "totalPositions (fst (getCart ?lookup ''alice'' aliceStorage ()))
        = Finite (sum_list [2, 3])
      \<and> fst (getCartItemCount ''alice'' aliceStorage) = Finite (sum_list [2, 3])"
    using totals_are_sums [of ?lookup "''alice''" aliceStorage "()" "[2, 3]"] quantities exact
    by blast
  then have count: "fst (getCartItemCount ''alice'' aliceStorage) = Finite 5"
    and total: "totalPositions (fst (getCart ?lookup ''alice'' aliceStorage ())) = Finite 5"
    by simp_all
  from none zero cleared zero' quantities exact count total show ?thesis by (intro conjI)
qed

text \<open>
  Beyond \<open>2^53\<close> the totals are not the sum: for the quantities 1, 9007199254740992 and
  1, whose sum 9007199254740994 is a double, both totals are 9007199254740992.
\<close>

theorem totals_are_sums_counterexample:
  "fst (getCartItemCount ''eve''
     [''eve'' \<mapsto> \<lparr>Cart.positions = [\<lparr>articleNumber = ''A'', quantity = Finite 1\<rparr>,
                                       \<lparr>articleNumber = ''B'', quantity = Finite 9007199254740992\<rparr>,
                                       \<lparr>articleNumber = ''C'', quantity = Finite 1\<rparr>]\<rparr>])
     = Finite 9007199254740992
   \<and> totalPositions (fst (getCart (fetchTransgourmetArticleDetails butterOnly) ''eve''
     [''eve'' \<mapsto> \<lparr>Cart.positions = [\<lparr>articleNumber = ''A'', quantity = Finite 1\<rparr>,
                                       \<lparr>articleNumber = ''B'', quantity = Finite 9007199254740992\<rparr>,
                                       \<lparr>articleNumber = ''C'', quantity = Finite 1\<rparr>]\<rparr>] ()))
     = Finite 9007199254740992
   \<and> Finite 9007199254740992 \<noteq> Finite (sum_list [1, 9007199254740992, 1])"
proof -
  let ?s = "[''eve'' \<mapsto> \<lparr>Cart.positions =
              [\<lparr>articleNumber = ''A'', quantity = Finite 1\<rparr>,
               \<lparr>articleNumber = ''B'', quantity = Finite 9007199254740992\<rparr>,
               \<lparr>articleNumber = ''C'', quantity = Finite 1\<rparr>]\<rparr>]"
  have count: "fst (getCartItemCount ''eve'' ?s) = Finite 9007199254740992"
    by (simp add: getCartItemCount_eq roundDouble_rounds)
  have "totalPositions (fst (getCart (fetchTransgourmetArticleDetails butterOnly) ''eve'' ?s ()))
     = foldl jsAdd (Finite 0) (map quantity (Cart.positions (cartOf ''eve'' ?s)))"
    by (simp only: getCart_totalPositions getCart_quantities)
  then have total:
    "totalPositions (fst (getCart (fetchTransgourmetArticleDetails butterOnly) ''eve'' ?s ()))
     = Finite 9007199254740992"
    by (simp add: roundDouble_rounds)
  have "Finite 9007199254740992 \<noteq> Finite (sum_list [1, 9007199254740992, 1])" by simp
  with count total show ?thesis by (intro conjI)
qed

section \<open>Submitting the cart\<close>






end
